theory Spec2Isabelle
  imports Complex_Main "HOL-Library.AList"
begin

section \<open>Python values used by app.py\<close>

subsection \<open>Floats\<close>

text \<open>
  A Python float is a binary64 number. Every finite one is a rational, so the finite
  floats are embedded in \<open>rat\<close>; the negative zero, the infinities and the
  not-a-number are values of their own. \<open>Fin\<close> admits every rational, the
  binary64 numbers among them, so what is proved for every \<open>Fin r\<close> holds for every
  finite float; the concrete values used below are binary64 numbers. Comparison
  follows IEEE 754 as Python applies it: nothing is below or above NaN, and both zeros
  are equal.
\<close>

datatype pyfloat = Fin rat | NegZero | PInf | NInf | NaN

fun fl_rank :: "pyfloat \<Rightarrow> int" where
  "fl_rank PInf = 1"
| "fl_rank NInf = - 1"
| "fl_rank _ = 0"

fun fl_val :: "pyfloat \<Rightarrow> rat" where
  "fl_val (Fin r) = r"
| "fl_val _ = 0"

definition fl_lt :: "pyfloat \<Rightarrow> pyfloat \<Rightarrow> bool" where
  "fl_lt a b = (a \<noteq> NaN \<and> b \<noteq> NaN \<and>
     (fl_rank a < fl_rank b \<or> (fl_rank a = fl_rank b \<and> fl_val a < fl_val b)))"

definition fl_le :: "pyfloat \<Rightarrow> pyfloat \<Rightarrow> bool" where
  "fl_le a b = (a \<noteq> NaN \<and> b \<noteq> NaN \<and>
     (fl_rank a < fl_rank b \<or> (fl_rank a = fl_rank b \<and> fl_val a \<le> fl_val b)))"

text \<open>Truth value of a float: \<open>if confidence\<close> is false exactly on the two zeros.\<close>

definition fl_is_zero :: "pyfloat \<Rightarrow> bool" where
  "fl_is_zero a = (a = Fin 0 \<or> a = NegZero)"

text \<open>Unary minus, as in \<open>-score\<close>.\<close>

fun fl_neg :: "pyfloat \<Rightarrow> pyfloat" where
  "fl_neg (Fin r) = (if r = 0 then NegZero else Fin (- r))"
| "fl_neg NegZero = Fin 0"
| "fl_neg PInf = NInf"
| "fl_neg NInf = PInf"
| "fl_neg NaN = NaN"

text \<open>
  The literal \<open>0.2\<close> of lines 106 and 109 denotes the binary64 number nearest to one
  fifth, which is \<open>3602879701896397 / 2^54\<close>; \<open>60\<close> and \<open>0.0\<close> are exact.
\<close>

definition lit_0_2 :: pyfloat where
  "lit_0_2 = Fin (3602879701896397 / 18014398509481984)"

definition in_unit_range :: "pyfloat \<Rightarrow> bool" where
  "in_unit_range v = (fl_le (Fin (- 1)) v \<and> fl_le v (Fin 1))"

subsection \<open>Strings\<close>

text \<open>
  A \<open>char\<close> stands for one code point below 256. \<open>isspace\<close> and \<open>str_lower\<close> are
  Python's \<open>str.isspace\<close> and \<open>str.lower\<close> on that range. \<open>upper_char\<close> is the
  upper-case form of a code point that has one below 256; \<open>str.upper\<close> itself
  comes after the platform, which it needs for the three other letters.
\<close>

definition isspace :: "char \<Rightarrow> bool" where
  "isspace c = (let n = (of_char c :: nat) in
     (9 \<le> n \<and> n \<le> 13) \<or> (28 \<le> n \<and> n \<le> 32) \<or> n = 133 \<or> n = 160)"

definition strip :: "string \<Rightarrow> string" where
  "strip s = rev (dropWhile isspace (rev (dropWhile isspace s)))"

definition lower_char :: "char \<Rightarrow> char" where
  "lower_char c = (let n = (of_char c :: nat) in
     if (65 \<le> n \<and> n \<le> 90) \<or> (192 \<le> n \<and> n \<le> 222 \<and> n \<noteq> 215)
     then char_of (n + 32) else c)"

definition upper_char :: "char \<Rightarrow> char" where
  "upper_char c = (let n = (of_char c :: nat) in
     if (97 \<le> n \<and> n \<le> 122) \<or> (224 \<le> n \<and> n \<le> 254 \<and> n \<noteq> 247)
     then char_of (n - 32) else c)"

definition str_lower :: "string \<Rightarrow> string" where
  "str_lower s = map lower_char s"

fun starts_with :: "string \<Rightarrow> string \<Rightarrow> bool" where
  "starts_with [] s = True"
| "starts_with (p # ps) [] = False"
| "starts_with (p # ps) (c # cs) = (p = c \<and> starts_with ps cs)"

text \<open>\<open>contains sub s\<close> is Python's \<open>sub in s\<close> on strings.\<close>

fun contains :: "string \<Rightarrow> string \<Rightarrow> bool" where
  "contains sub [] = (sub = [])"
| "contains sub (c # cs) = (starts_with sub (c # cs) \<or> contains sub cs)"

subsection \<open>The syntax that \<open>float\<close> accepts in a string\<close>

text \<open>
  \<open>float(s)\<close> strips white space and accepts an optional sign followed by
  \<open>inf\<close>, \<open>infinity\<close> or \<open>nan\<close> in any case, or by a decimal number with an
  optional exponent; digits may be grouped by single underscores. Anything else
  raises ValueError. The white space that \<open>float\<close> strips is that of
  \<open>str.isspace\<close> without the four separators 28 to 31.
\<close>

definition float_isspace :: "char \<Rightarrow> bool" where
  "float_isspace c = (let n = (of_char c :: nat) in
     (9 \<le> n \<and> n \<le> 13) \<or> n = 32 \<or> n = 133 \<or> n = 160)"

definition float_strip :: "string \<Rightarrow> string" where
  "float_strip s = rev (dropWhile float_isspace (rev (dropWhile float_isspace s)))"

definition is_digit :: "char \<Rightarrow> bool" where
  "is_digit c = (let n = (of_char c :: nat) in 48 \<le> n \<and> n \<le> 57)"

text \<open>What is left of a string after the digits and grouped digits that follow a digit.\<close>

fun digits_tail :: "string \<Rightarrow> string" where
  "digits_tail [] = []"
| "digits_tail [c] = (if is_digit c then [] else [c])"
| "digits_tail (c # d # cs) =
     (if is_digit c then digits_tail (d # cs)
      else if c = CHR ''_'' \<and> is_digit d then digits_tail (d # cs)
      else c # d # cs)"

text \<open>A digit part, if the string starts with one: the rest of the string.\<close>

definition digitpart :: "string \<Rightarrow> string option" where
  "digitpart s = (case s of [] \<Rightarrow> None
     | c # cs \<Rightarrow> if is_digit c then Some (digits_tail cs) else None)"

definition drop_sign :: "string \<Rightarrow> string" where
  "drop_sign s = (case s of [] \<Rightarrow> []
     | c # cs \<Rightarrow> if c = CHR ''+'' \<or> c = CHR ''-'' then cs else s)"

definition exponent_ok :: "string \<Rightarrow> bool" where
  "exponent_ok s = (case s of [] \<Rightarrow> True
     | c # cs \<Rightarrow> (c = CHR ''e'' \<or> c = CHR ''E'') \<and> digitpart (drop_sign cs) = Some [])"

definition floatnumber_ok :: "string \<Rightarrow> bool" where
  "floatnumber_ok s = (case digitpart s of
       Some r \<Rightarrow> (case r of
           c # cs \<Rightarrow> if c = CHR ''.''
             then (case digitpart cs of Some r' \<Rightarrow> exponent_ok r' | None \<Rightarrow> exponent_ok cs)
             else exponent_ok r
         | [] \<Rightarrow> True)
     | None \<Rightarrow> (case s of
           c # cs \<Rightarrow> c = CHR ''.'' \<and> (case digitpart cs of Some r' \<Rightarrow> exponent_ok r' | None \<Rightarrow> False)
         | [] \<Rightarrow> False))"

definition float_syntax :: "string \<Rightarrow> bool" where
  "float_syntax s = (let a = drop_sign s in
     str_lower a = ''inf'' \<or> str_lower a = ''infinity'' \<or> str_lower a = ''nan''
     \<or> floatnumber_ok a)"

subsection \<open>JSON values\<close>

text \<open>
  What \<open>request.get_json\<close> returns: \<open>None\<close>, a bool, an int, a float, a str, a list or a
  dict. A dict is its list of items, read with \<open>map_of\<close>.
\<close>

datatype json =
    JNull
  | JBool bool
  | JInt int
  | JFloat pyfloat
  | JStr string
  | JArr "json list"
  | JObj "(string \<times> json) list"

datatype exn =
    AttributeError
  | TypeError
  | ValueError
  | OverflowError
  | ClassifierError
  | TransportError

text \<open>\<open>data.get(key, default)\<close>: only a dict has \<open>get\<close>.\<close>

definition py_get :: "json \<Rightarrow> string \<Rightarrow> json \<Rightarrow> exn + json" where
  "py_get data key dflt = (case data of
       JObj items \<Rightarrow> Inr (case map_of items key of Some v \<Rightarrow> v | None \<Rightarrow> dflt)
     | _ \<Rightarrow> Inl AttributeError)"

text \<open>\<open>v.lower()\<close>: only a str has it.\<close>

definition py_lower :: "json \<Rightarrow> exn + string" where
  "py_lower v = (case v of JStr s \<Rightarrow> Inr (str_lower s) | _ \<Rightarrow> Inl AttributeError)"

text \<open>Truth value of a JSON value, as \<open>not text\<close> reads it.\<close>

definition truthy :: "json \<Rightarrow> bool" where
  "truthy v = (case v of
       JNull \<Rightarrow> False
     | JBool b \<Rightarrow> b
     | JInt i \<Rightarrow> i \<noteq> 0
     | JFloat f \<Rightarrow> \<not> fl_is_zero f
     | JStr s \<Rightarrow> s \<noteq> []
     | JArr xs \<Rightarrow> xs \<noteq> []
     | JObj items \<Rightarrow> items \<noteq> [])"

text \<open>
  \<open>":" in symbol\<close>: a substring test on a str, membership on a list, key membership on
  a dict, and TypeError on \<open>None\<close>, a bool or a number.
\<close>

definition colon_in :: "json \<Rightarrow> exn + bool" where
  "colon_in v = (case v of
       JStr s \<Rightarrow> Inr (contains '':'' s)
     | JArr xs \<Rightarrow> Inr (JStr '':'' \<in> set xs)
     | JObj items \<Rightarrow> Inr ('':'' \<in> fst ` set items)
     | _ \<Rightarrow> Inl TypeError)"

section \<open>The platform\<close>

text \<open>
  The collaborators that app.py calls and does not define: the FinBERT classifier, the
  HTTP client, HMAC, and the built-in conversions whose results the handler only
  passes on. They are parameters of the model, so every theorem holds whatever they
  compute. The classifier and the HTTP client may raise.
\<close>

record clf_result =
  label :: string
  score :: pyfloat

record post_request =
  req_url :: string
  req_headers :: "(string \<times> string) list"
  req_params :: "(string \<times> string) list"
  req_json :: json
  req_timeout :: nat

text \<open>
  The response object of \<open>requests.post\<close>: \<open>r.status_code\<close>, \<open>r.text\<close>, and
  what \<open>r.json()\<close> returns, \<open>None\<close> when it raises.
\<close>

record http_response =
  resp_status_code :: int
  resp_text :: string
  resp_json :: "json option"

record platform =
  sent_clf :: "string \<Rightarrow> exn + clf_result"
  requests_post :: "post_request \<Rightarrow> exn + http_response"
  hmac_sha256_hex :: "string \<Rightarrow> string \<Rightarrow> string"
  fmt_2f :: "pyfloat \<Rightarrow> string"
  float_str :: "pyfloat \<Rightarrow> string"
  value_str :: "json \<Rightarrow> string"
  int_of_str :: "string \<Rightarrow> int option"
  float_of_literal :: "string \<Rightarrow> pyfloat"
  float_of_big_int :: "int \<Rightarrow> pyfloat option"
  upper_beyond_latin1 :: "char \<Rightarrow> string"

text \<open>
  \<open>str.upper\<close> maps each code point to its upper-case form. Below 256 that form is
  one code point below 256 again, except for three letters: the sharp s (223) becomes
  \<open>SS\<close>, and the forms of the micro sign (181) and of the y with diaeresis (255)
  lie beyond 255, where a \<open>char\<close> cannot follow; for these two the text is the
  platform's.
\<close>

definition upper_chars :: "platform \<Rightarrow> char \<Rightarrow> string" where
  "upper_chars w c = (let n = (of_char c :: nat) in
     if n = 223 then ''SS''
     else if n = 181 \<or> n = 255 then upper_beyond_latin1 w c
     else [upper_char c])"

definition str_upper :: "platform \<Rightarrow> string \<Rightarrow> string" where
  "str_upper w s = concat (map (upper_chars w) s)"

text \<open>\<open>v.upper()\<close>: only a str has it.\<close>

definition py_upper :: "platform \<Rightarrow> json \<Rightarrow> exn + string" where
  "py_upper w v = (case v of JStr s \<Rightarrow> Inr (str_upper w s) | _ \<Rightarrow> Inl AttributeError)"

text \<open>
  \<open>float(v)\<close> of line 97. An int up to \<open>2^53\<close> in magnitude converts exactly; a
  larger one is rounded by the platform, or raises OverflowError. A str is parsed
  when it has the syntax of a float, and its value is the platform's.
\<close>

definition py_float :: "platform \<Rightarrow> json \<Rightarrow> exn + pyfloat" where
  "py_float w v = (case v of
       JNull \<Rightarrow> Inl TypeError
     | JBool b \<Rightarrow> Inr (Fin (if b then 1 else 0))
     | JInt i \<Rightarrow>
         if \<bar>i\<bar> \<le> 9007199254740992 then Inr (Fin (of_int i))
         else (case float_of_big_int w i of Some f \<Rightarrow> Inr f | None \<Rightarrow> Inl OverflowError)
     | JFloat f \<Rightarrow> Inr f
     | JStr s \<Rightarrow>
         if float_syntax (float_strip s) then Inr (float_of_literal w (float_strip s))
         else Inl ValueError
     | JArr xs \<Rightarrow> Inl TypeError
     | JObj items \<Rightarrow> Inl TypeError)"

text \<open>\<open>{symbol}\<close> in an f-string: a str as it is, any other value as the platform prints it.\<close>

definition py_str :: "platform \<Rightarrow> json \<Rightarrow> string" where
  "py_str w v = (case v of JStr s \<Rightarrow> s | _ \<Rightarrow> value_str w v)"

section \<open>Effects\<close>

text \<open>
  A call returns the events it caused, in order, and either the exception it raised
  or its value. The events are what the theorems speak about: the classifier call, the
  HTTP request, and the three \<open>print\<close> lines.
\<close>

datatype event =
    ClassifierCall string
  | LogDecision json string pyfloat pyfloat json string
  | LogDryRun json
  | HttpPost post_request
  | LogResponse json

type_synonym 'a eff = "event list \<times> (exn + 'a)"

definition ret :: "'a \<Rightarrow> 'a eff" where
  "ret x = ([], Inr x)"

definition raise :: "exn \<Rightarrow> 'a eff" where
  "raise e = ([], Inl e)"

definition emit :: "event \<Rightarrow> unit eff" where
  "emit ev = ([ev], Inr ())"

definition lift :: "exn + 'a \<Rightarrow> 'a eff" where
  "lift r = ([], r)"

definition bind :: "'a eff \<Rightarrow> ('a \<Rightarrow> 'b eff) \<Rightarrow> 'b eff" where
  "bind m f = (case m of
       (es, Inl e) \<Rightarrow> (es, Inl e)
     | (es, Inr x) \<Rightarrow> (case f x of (es', r) \<Rightarrow> (es @ es', r)))"

text \<open>The same sequencing for conversions that cause no event.\<close>

definition bnd :: "exn + 'a \<Rightarrow> ('a \<Rightarrow> exn + 'b) \<Rightarrow> exn + 'b" where
  "bnd r f = (case r of Inl e \<Rightarrow> Inl e | Inr x \<Rightarrow> f x)"

definition classify :: "platform \<Rightarrow> string \<Rightarrow> clf_result eff" where
  "classify w t = ([ClassifierCall t], sent_clf w t)"

definition http_post :: "platform \<Rightarrow> post_request \<Rightarrow> http_response eff" where
  "http_post w rq = ([HttpPost rq], requests_post w rq)"

section \<open>Configuration (lines 10 to 14)\<close>

record config =
  TV_WEBHOOK_TOKEN :: string
  API_KEY :: string
  API_SECRET :: string
  BOT_ID :: string
  DRY_RUN :: bool

section \<open>sentiment\_score (lines 22 to 35)\<close>

definition sentiment_score :: "platform \<Rightarrow> json \<Rightarrow> pyfloat eff" where
  "sentiment_score w text =
     (if \<not> truthy text then ret (Fin 0)
      else case text of
          JStr t \<Rightarrow>
            if strip t = [] then ret (Fin 0)
            else bind (classify w (take 500 t)) (\<lambda>res.
              let lbl = str_lower (label res); sc = score res in
              if contains ''positive'' lbl then ret sc
              else if contains ''negative'' lbl then ret (fl_neg sc)
              else ret (Fin 0))
        | _ \<Rightarrow> raise AttributeError)"

section \<open>The 3Commas helpers (lines 38 to 78)\<close>

definition BASE_URL :: string where
  "BASE_URL = ''https://api.3commas.io/public/api''"

definition sign :: "platform \<Rightarrow> config \<Rightarrow> string \<Rightarrow> string" where
  "sign w cfg query = hmac_sha256_hex w (API_SECRET cfg) query"

definition headers :: "config \<Rightarrow> (string \<times> string) list" where
  "headers cfg =
     [(''APIKEY'', API_KEY cfg), (''Signature'', []), (''Content-Type'', ''application/json'')]"

definition deal_payload :: "int \<Rightarrow> json \<Rightarrow> string \<Rightarrow> json" where
  "deal_payload n pair message =
     JObj [(''bot_id'', JInt n), (''pair'', pair), (''message'', JStr (take 240 message))]"

text \<open>Lines 55 to 60 and 72: the request that \<open>requests.post\<close> is given.\<close>

definition deal_request :: "platform \<Rightarrow> config \<Rightarrow> json \<Rightarrow> post_request" where
  "deal_request w cfg payload =
     (let endpoint = ''/ver1/bots/start_deal'';
          query = [];
          url = BASE_URL @ endpoint;
          hdrs = AList.update ''Signature'' (sign w cfg query) (headers cfg)
      in \<lparr>req_url = url, req_headers = hdrs, req_params = [],
          req_json = payload, req_timeout = 20\<rparr>)"

text \<open>Lines 73 to 76: the parsed body, or the status code and the text when parsing raises.\<close>

definition deal_response :: "http_response \<Rightarrow> json" where
  "deal_response r = (case resp_json r of
       Some j \<Rightarrow> j
     | None \<Rightarrow> JObj [(''status_code'', JInt (resp_status_code r)),
                      (''text'', JStr (resp_text r))])"

text \<open>
  \<open>int(bot_id)\<close> of line 63 is evaluated before the dry-run test, and raises
  ValueError on a bot id that is not an integer.
\<close>

definition start_deal :: "platform \<Rightarrow> config \<Rightarrow> string \<Rightarrow> json \<Rightarrow> string \<Rightarrow> json eff" where
  "start_deal w cfg bot_id pair message =
     (case int_of_str w bot_id of
        None \<Rightarrow> raise ValueError
      | Some n \<Rightarrow>
          let payload = deal_payload n pair message in
          if DRY_RUN cfg then
            bind (emit (LogDryRun payload)) (\<lambda>_. ret (JObj [(''status'', JStr ''dry_run'')]))
          else
            bind (http_post w (deal_request w cfg payload)) (\<lambda>r.
              let data = deal_response r in
              bind (emit (LogResponse data)) (\<lambda>_. ret data)))"

section \<open>webhook (lines 80 to 130)\<close>

record response =
  status :: nat
  body :: json

record alert =
  alert_symbol :: json
  alert_exchange :: string
  alert_side :: string
  alert_note :: json
  alert_confidence :: pyfloat
  alert_pair :: json

text \<open>Lines 93 to 98: the fields of the alert, and the pair.\<close>

definition extract_fields :: "platform \<Rightarrow> json \<Rightarrow> exn + alert" where
  "extract_fields w data =
     bnd (py_get data ''symbol'' JNull) (\<lambda>symbol.
     bnd (bnd (py_get data ''exchange'' (JStr ''BINANCE'')) (py_upper w)) (\<lambda>exchange.
     bnd (bnd (py_get data ''side'' (JStr [])) py_lower) (\<lambda>side.
     bnd (py_get data ''note'' (JStr [])) (\<lambda>note.
     bnd (bnd (py_get data ''confidence'' (JInt 0)) (py_float w)) (\<lambda>confidence.
     bnd (colon_in symbol) (\<lambda>has_colon.
       Inr \<lparr>alert_symbol = symbol, alert_exchange = exchange, alert_side = side,
            alert_note = note, alert_confidence = confidence,
            alert_pair = (if \<not> has_colon then JStr (exchange @ '':'' @ py_str w symbol)
                          else symbol)\<rparr>))))))"

text \<open>Lines 104 to 113: the sentiment gate, giving \<open>should_trade\<close> and \<open>reason\<close>.\<close>

definition gate1 :: "platform \<Rightarrow> string \<Rightarrow> pyfloat \<Rightarrow> bool \<times> string" where
  "gate1 w side s =
     (if side = ''buy'' \<and> fl_lt lit_0_2 s then
        (True, ''BUY allowed (sentiment '' @ fmt_2f w s @ '')'')
      else if side = ''sell'' \<and> fl_lt s (fl_neg lit_0_2) then
        (True, ''SELL allowed (sentiment '' @ fmt_2f w s @ '')'')
      else (False, ''Blocked by sentiment '' @ fmt_2f w s))"

text \<open>Lines 116 to 118: the confidence gate.\<close>

definition low_confidence_note :: "platform \<Rightarrow> pyfloat \<Rightarrow> string" where
  "low_confidence_note w confidence = '' | low TV confidence '' @ float_str w confidence @ ''%''"

definition gate2 :: "platform \<Rightarrow> pyfloat \<Rightarrow> bool \<times> string \<Rightarrow> bool \<times> string" where
  "gate2 w confidence d =
     (if \<not> fl_is_zero confidence \<and> fl_lt confidence (Fin 60) then
        (False, snd d @ low_confidence_note w confidence)
      else d)"

definition decide :: "platform \<Rightarrow> string \<Rightarrow> pyfloat \<Rightarrow> pyfloat \<Rightarrow> bool \<times> string" where
  "decide w side s confidence = gate2 w confidence (gate1 w side s)"

definition skipped_response :: "string \<Rightarrow> response" where
  "skipped_response reason =
     \<lparr>status = 200,
      body = JObj [(''ok'', JBool True), (''action'', JStr ''skipped''), (''reason'', JStr reason)]\<rparr>"

definition not_configured_response :: response where
  "not_configured_response =
     \<lparr>status = 500,
      body = JObj [(''ok'', JBool False),
                   (''error'', JStr ''3Commas API not configured (API key/secret/bot id)'')]\<rparr>"

definition deal_started_response :: "json \<Rightarrow> response" where
  "deal_started_response resp =
     \<lparr>status = 200,
      body = JObj [(''ok'', JBool True), (''action'', JStr ''deal_started''),
                   (''threecommas'', resp)]\<rparr>"

definition invalid_json_response :: response where
  "invalid_json_response =
     \<lparr>status = 400, body = JObj [(''ok'', JBool False), (''error'', JStr ''invalid JSON'')]\<rparr>"

definition bad_token_response :: response where
  "bad_token_response =
     \<lparr>status = 401, body = JObj [(''ok'', JBool False), (''error'', JStr ''bad token'')]\<rparr>"

text \<open>Lines 120 to 130: the log line and the three ways out.\<close>

definition dispatch :: "platform \<Rightarrow> config \<Rightarrow> alert \<Rightarrow> pyfloat \<Rightarrow> bool \<times> string \<Rightarrow> response eff" where
  "dispatch w cfg a s d =
     (let should_trade = fst d; reason = snd d in
      bind (emit (LogDecision (alert_pair a) (alert_side a) s (alert_confidence a)
                    (alert_note a) reason)) (\<lambda>_.
        if \<not> should_trade then ret (skipped_response reason)
        else if \<not> (API_KEY cfg \<noteq> [] \<and> API_SECRET cfg \<noteq> [] \<and> BOT_ID cfg \<noteq> []) then
          ret not_configured_response
        else
          bind (start_deal w cfg (BOT_ID cfg) (alert_pair a)
                  (''TV+FinBERT: '' @ alert_side a @ '' ('' @ reason @ '')'')) (\<lambda>resp.
            ret (deal_started_response resp))))"

text \<open>Lines 92 to 130: what the handler does with a request that passed the token check.\<close>

definition handle_alert :: "platform \<Rightarrow> config \<Rightarrow> json \<Rightarrow> response eff" where
  "handle_alert w cfg data =
     bind (lift (extract_fields w data)) (\<lambda>a.
     bind (sentiment_score w (alert_note a)) (\<lambda>s.
       dispatch w cfg a s (decide w (alert_side a) s (alert_confidence a))))"

text \<open>
  The handler. The request is \<open>None\<close> when \<open>request.get_json(force=True)\<close> raises, and
  the parsed value otherwise.
\<close>

definition webhook :: "platform \<Rightarrow> config \<Rightarrow> json option \<Rightarrow> response eff" where
  "webhook w cfg request = (case request of
       None \<Rightarrow> ret invalid_json_response
     | Some data \<Rightarrow>
         bind (lift (py_get data ''token'' (JStr []))) (\<lambda>token.
           if TV_WEBHOOK_TOKEN cfg \<noteq> [] \<and> token \<noteq> JStr (TV_WEBHOOK_TOKEN cfg) then
             ret bad_token_response
           else handle_alert w cfg data))"

section \<open>A concrete platform and concrete requests\<close>

text \<open>
  Stand-ins for the collaborators, used to run the model on concrete requests: a
  classifier and an HTTP answer of one's choice, conversions that print placeholders,
  and an \<open>int\<close> that reads the one bot id used below.
\<close>

definition stub_platform :: "(string \<Rightarrow> exn + clf_result) \<Rightarrow> (exn + http_response) \<Rightarrow> platform" where
  "stub_platform clf answer =
     \<lparr>sent_clf = clf,
      requests_post = (\<lambda>rq. answer),
      hmac_sha256_hex = (\<lambda>key msg. ''<digest>''),
      fmt_2f = (\<lambda>f. ''<s>''),
      float_str = (\<lambda>f. ''<confidence>''),
      value_str = (\<lambda>v. ''<value>''),
      int_of_str = (\<lambda>s. if s = ''12345'' then Some 12345 else None),
      float_of_literal = (\<lambda>s. Fin 0),
      float_of_big_int = (\<lambda>i. None),
      upper_beyond_latin1 = (\<lambda>c. ''<upper>'')\<rparr>"

definition clf_const :: "string \<Rightarrow> pyfloat \<Rightarrow> string \<Rightarrow> exn + clf_result" where
  "clf_const lbl sc t = Inr \<lparr>label = lbl, score = sc\<rparr>"

definition bad_gateway :: "exn + http_response" where
  "bad_gateway = Inr \<lparr>resp_status_code = 502, resp_text = ''Bad Gateway'', resp_json = None\<rparr>"

definition example_config :: "bool \<Rightarrow> config" where
  "example_config dry =
     \<lparr>TV_WEBHOOK_TOKEN = ''secret123'', API_KEY = ''key'', API_SECRET = ''secret'',
      BOT_ID = ''12345'', DRY_RUN = dry\<rparr>"

text \<open>The alert of the end-to-end scenario, with a confidence of one's choice.\<close>

definition example_alert :: "json \<Rightarrow> json" where
  "example_alert conf =
     JObj [(''token'', JStr ''secret123''), (''symbol'', JStr ''BTCUSDT''), (''side'', JStr ''buy''),
           (''note'', JStr ''strong earnings beat''), (''confidence'', conf)]"

text \<open>The same alert without its \<open>symbol\<close>.\<close>

definition alert_without_symbol :: json where
  "alert_without_symbol =
     JObj [(''token'', JStr ''secret123''), (''side'', JStr ''buy''),
           (''note'', JStr ''strong earnings beat''), (''confidence'', JInt 75)]"

text \<open>An event of a dispatch: the dry-run line or the HTTP request of \<open>start_deal\<close>.\<close>

fun is_dispatch_event :: "event \<Rightarrow> bool" where
  "is_dispatch_event (LogDryRun p) = True"
| "is_dispatch_event (HttpPost rq) = True"
| "is_dispatch_event _ = False"

definition dispatched :: "'a eff \<Rightarrow> bool" where
  "dispatched res = list_ex is_dispatch_event (fst res)"

fun is_http_post :: "event \<Rightarrow> bool" where
  "is_http_post (HttpPost rq) = True"
| "is_http_post _ = False"

section \<open>Sequencing and float lemmas\<close>

lemma bind_simps:
  "bind (ret x) f = f x"
  "bind (raise e) f = raise e"
  "bind (lift (Inr x)) f = f x"
  "bind (lift (Inl e)) f = ([], Inl e)"
  "bind (es, Inl e) f = (es, Inl e)"
  "bind (es, Inr x) f = (es @ fst (f x), snd (f x))"
  by (simp_all add: bind_def ret_def raise_def lift_def split: prod.splits)

lemma bnd_simps:
  "bnd (Inl e) f = Inl e"
  "bnd (Inr x) f = f x"
  by (simp_all add: bnd_def)

lemma fl_lt_irrefl: "\<not> fl_lt a a"
  by (simp add: fl_lt_def)

lemma fl_neg_lit_0_2: "fl_neg lit_0_2 = Fin (- (3602879701896397 / 18014398509481984))"
  by (simp add: lit_0_2_def)

section \<open>Gate 1: directional alignment\<close>

text \<open>
  Claim C3. The sentiment gate marks a request trade-eligible if and only if the side
  is "buy" and the sentiment is strictly above 0.2, or the side is "sell" and the
  sentiment is strictly below -0.2. At the two boundaries, and for any other side, the
  request is not eligible, and the reason of a request that is not eligible records
  the blocking sentiment.
\<close>

theorem gate1_eligible_iff:
  "(fst (gate1 w side s) \<longleftrightarrow>
      (side = ''buy'' \<and> fl_lt lit_0_2 s) \<or> (side = ''sell'' \<and> fl_lt s (fl_neg lit_0_2)))
   \<and> \<not> fst (gate1 w ''buy'' lit_0_2)
   \<and> \<not> fst (gate1 w ''sell'' (fl_neg lit_0_2))
   \<and> (side \<noteq> ''buy'' \<and> side \<noteq> ''sell'' \<longrightarrow> \<not> fst (gate1 w side s))
   \<and> (\<not> fst (gate1 w side s) \<longrightarrow>
        snd (gate1 w side s) = ''Blocked by sentiment '' @ fmt_2f w s)"
  by (simp add: gate1_def fl_lt_irrefl)

theorem gate1_eligible_iff_witness:
  "''hold'' \<noteq> ''buy'' \<and> ''hold'' \<noteq> ''sell''
   \<and> \<not> fst (gate1 (stub_platform (clf_const ''positive'' (Fin (7 / 8))) bad_gateway)
              ''hold'' (Fin (7 / 8)))
   \<and> snd (gate1 (stub_platform (clf_const ''positive'' (Fin (7 / 8))) bad_gateway)
              ''hold'' (Fin (7 / 8))) = ''Blocked by sentiment <s>''"
  using gate1_eligible_iff [of "stub_platform (clf_const ''positive'' (Fin (7 / 8))) bad_gateway"
      "''hold''" "Fin (7 / 8)"]
  by (simp add: stub_platform_def)

section \<open>Gate 2: the confidence override\<close>

lemma dispatch_not_eligible:
  "\<not> fst d \<Longrightarrow>
   dispatch w cfg a s d =
     ([LogDecision (alert_pair a) (alert_side a) s (alert_confidence a) (alert_note a) (snd d)],
      Inr (skipped_response (snd d)))"
  by (simp add: dispatch_def emit_def ret_def bind_simps Let_def)




section \<open>The handler, step by step\<close>

lemma webhook_object:
  "webhook w cfg (Some (JObj items)) =
     (if TV_WEBHOOK_TOKEN cfg \<noteq> [] \<and>
         (case map_of items ''token'' of Some v \<Rightarrow> v | None \<Rightarrow> JStr []) \<noteq> JStr (TV_WEBHOOK_TOKEN cfg)
      then ([], Inr bad_token_response)
      else handle_alert w cfg (JObj items))"
  by (simp add: webhook_def py_get_def bind_simps ret_def)

lemma webhook_events_object:
  "fst (webhook w cfg rq) \<noteq> [] \<Longrightarrow>
   \<exists>items. rq = Some (JObj items) \<and> webhook w cfg rq = handle_alert w cfg (JObj items)"
proof (cases rq)
  case None
  assume "fst (webhook w cfg rq) \<noteq> []"
  with None show ?thesis by (simp add: webhook_def ret_def)
next
  case (Some data)
  assume ev: "fst (webhook w cfg rq) \<noteq> []"
  show ?thesis
  proof (cases data)
    case (JObj items)
    with Some ev show ?thesis
      by (auto simp add: webhook_object split: if_splits)
  qed (use Some ev in \<open>simp_all add: webhook_def py_get_def bind_simps\<close>)
qed

lemma handle_alert_raises:
  "extract_fields w data = Inl e \<Longrightarrow> handle_alert w cfg data = ([], Inl e)"
  by (simp add: handle_alert_def bind_simps)

lemma handle_alert_scored:
  "extract_fields w data = Inr a \<Longrightarrow> sentiment_score w (alert_note a) = (es, Inr s) \<Longrightarrow>
   handle_alert w cfg data =
     (es @ fst (dispatch w cfg a s (decide w (alert_side a) s (alert_confidence a))),
      snd (dispatch w cfg a s (decide w (alert_side a) s (alert_confidence a))))"
  by (simp add: handle_alert_def bind_simps)

lemma handle_alert_unscored:
  "extract_fields w data = Inr a \<Longrightarrow> sentiment_score w (alert_note a) = (es, Inl e) \<Longrightarrow>
   handle_alert w cfg data = (es, Inl e)"
  by (simp add: handle_alert_def bind_simps)

lemma sentiment_score_events:
  "e \<in> set (fst (sentiment_score w text)) \<Longrightarrow> \<exists>t. e = ClassifierCall t"
  by (auto simp add: sentiment_score_def ret_def raise_def bind_def classify_def Let_def
      split: if_splits json.splits sum.splits)

lemma sentiment_score_not_dispatched:
  "sentiment_score w text = (es, r) \<Longrightarrow> \<not> list_ex is_dispatch_event es"
proof
  assume eq: "sentiment_score w text = (es, r)" and ex: "list_ex is_dispatch_event es"
  from ex obtain e where e: "e \<in> set es" "is_dispatch_event e"
    by (auto simp add: list_ex_iff)
  from e(1) eq have "\<exists>t. e = ClassifierCall t"
    using sentiment_score_events [of e w "text"] by simp
  with e(2) show False by auto
qed

lemma dispatch_status:
  "snd (dispatch w cfg a s d) = Inr r \<Longrightarrow> status r = 200 \<or> status r = 500"
  by (auto simp add: dispatch_def Let_def emit_def ret_def bind_def skipped_response_def
      not_configured_response_def deal_started_response_def split: if_splits prod.splits sum.splits)

lemma handle_alert_status:
  "snd (handle_alert w cfg data) = Inr r \<Longrightarrow> status r = 200 \<or> status r = 500"
proof (cases "extract_fields w data")
  case (Inl e)
  assume "snd (handle_alert w cfg data) = Inr r"
  with Inl show ?thesis by (simp add: handle_alert_raises)
next
  case (Inr a)
  assume r: "snd (handle_alert w cfg data) = Inr r"
  obtain es x where sc: "sentiment_score w (alert_note a) = (es, x)"
    by (cases "sentiment_score w (alert_note a)")
  show ?thesis
  proof (cases x)
    case (Inl e)
    with Inr sc r show ?thesis by (simp add: handle_alert_unscored)
  next
    case (Inr s)
    with \<open>extract_fields w data = Inr a\<close> sc r show ?thesis
      by (simp add: handle_alert_scored dispatch_status)
  qed
qed

section \<open>Authentication\<close>

text \<open>
  Claim C4. For every parsed request: when a non-empty webhook token is configured and
  the \<open>token\<close> field of the payload (the empty string when absent) is not exactly
  that token, the handler returns status 401 with the body
  \<open>{ok: false, error: "bad token"}\<close>; when the configured token is empty, the check
  is skipped: whatever the token field, the handler goes on with the alert, and it
  never answers 401.
\<close>

theorem token_check:
  "(TV_WEBHOOK_TOKEN cfg \<noteq> [] \<and>
      (case map_of items ''token'' of Some v \<Rightarrow> v | None \<Rightarrow> JStr []) \<noteq> JStr (TV_WEBHOOK_TOKEN cfg) \<longrightarrow>
      webhook w cfg (Some (JObj items)) =
        ([], Inr \<lparr>status = 401,
                  body = JObj [(''ok'', JBool False), (''error'', JStr ''bad token'')]\<rparr>))
   \<and> (TV_WEBHOOK_TOKEN cfg = [] \<longrightarrow>
        webhook w cfg (Some (JObj items)) = handle_alert w cfg (JObj items)
        \<and> (\<forall>r. snd (webhook w cfg (Some (JObj items))) = Inr r \<longrightarrow> status r \<noteq> 401))"
proof (intro conjI impI allI)
  assume "TV_WEBHOOK_TOKEN cfg \<noteq> [] \<and>
      (case map_of items ''token'' of Some v \<Rightarrow> v | None \<Rightarrow> JStr []) \<noteq> JStr (TV_WEBHOOK_TOKEN cfg)"
  then show "webhook w cfg (Some (JObj items)) =
        ([], Inr \<lparr>status = 401,
                  body = JObj [(''ok'', JBool False), (''error'', JStr ''bad token'')]\<rparr>)"
    by (simp add: webhook_object bad_token_response_def)
next
  assume open_door: "TV_WEBHOOK_TOKEN cfg = []"
  then show eq: "webhook w cfg (Some (JObj items)) = handle_alert w cfg (JObj items)"
    by (simp add: webhook_object)
  fix r
  assume "snd (webhook w cfg (Some (JObj items))) = Inr r"
  with eq have "status r = 200 \<or> status r = 500"
    by (simp add: handle_alert_status)
  then show "status r \<noteq> 401" by auto
qed

theorem token_check_witness:
  "(TV_WEBHOOK_TOKEN (example_config True) \<noteq> [] \<and> JStr [] \<noteq> JStr (TV_WEBHOOK_TOKEN (example_config True)))
   \<and> webhook (stub_platform (clf_const ''positive'' (Fin (7 / 8))) bad_gateway) (example_config True)
        (Some (JObj [(''symbol'', JStr ''BTCUSDT'')])) =
        ([], Inr \<lparr>status = 401,
                  body = JObj [(''ok'', JBool False), (''error'', JStr ''bad token'')]\<rparr>)
   \<and> TV_WEBHOOK_TOKEN ((example_config True)\<lparr>TV_WEBHOOK_TOKEN := []\<rparr>) = []
   \<and> webhook (stub_platform (clf_const ''positive'' (Fin (7 / 8))) bad_gateway)
        ((example_config True)\<lparr>TV_WEBHOOK_TOKEN := []\<rparr>)
        (Some (JObj [(''token'', JStr ''anything''), (''symbol'', JStr ''BTCUSDT'')])) =
      handle_alert (stub_platform (clf_const ''positive'' (Fin (7 / 8))) bad_gateway)
        ((example_config True)\<lparr>TV_WEBHOOK_TOKEN := []\<rparr>)
        (JObj [(''token'', JStr ''anything''), (''symbol'', JStr ''BTCUSDT'')])
   \<and> snd (handle_alert (stub_platform (clf_const ''positive'' (Fin (7 / 8))) bad_gateway)
        ((example_config True)\<lparr>TV_WEBHOOK_TOKEN := []\<rparr>)
        (JObj [(''token'', JStr ''anything''), (''symbol'', JStr ''BTCUSDT'')])) =
      Inr (skipped_response ''Blocked by sentiment <s>'')
   \<and> status (skipped_response ''Blocked by sentiment <s>'') \<noteq> 401"
proof -
  let ?w = "stub_platform (clf_const ''positive'' (Fin (7 / 8))) bad_gateway"
  let ?open = "(example_config True)\<lparr>TV_WEBHOOK_TOKEN := []\<rparr>"
  have closed: "TV_WEBHOOK_TOKEN (example_config True) \<noteq> [] \<and>
      JStr [] \<noteq> JStr (TV_WEBHOOK_TOKEN (example_config True))"
    by (simp add: example_config_def)
  have opened: "TV_WEBHOOK_TOKEN ?open = []"
    by simp
  have refused: "webhook ?w (example_config True) (Some (JObj [(''symbol'', JStr ''BTCUSDT'')])) =
        ([], Inr \<lparr>status = 401,
                  body = JObj [(''ok'', JBool False), (''error'', JStr ''bad token'')]\<rparr>)"
    using token_check [of "example_config True" "[(''symbol'', JStr ''BTCUSDT'')]" ?w] closed
    by simp
  have passed: "webhook ?w ?open
        (Some (JObj [(''token'', JStr ''anything''), (''symbol'', JStr ''BTCUSDT'')])) =
      handle_alert ?w ?open (JObj [(''token'', JStr ''anything''), (''symbol'', JStr ''BTCUSDT'')])"
    using token_check [of ?open "[(''token'', JStr ''anything''), (''symbol'', JStr ''BTCUSDT'')]" ?w]
      opened
    by simp
  have answer: "snd (handle_alert ?w ?open
        (JObj [(''token'', JStr ''anything''), (''symbol'', JStr ''BTCUSDT'')])) =
      Inr (skipped_response ''Blocked by sentiment <s>'')"
    by (simp add: handle_alert_def extract_fields_def py_get_def
        bind_simps bnd_simps py_upper_def py_lower_def py_float_def colon_in_def
        str_lower_def sentiment_score_def truthy_def ret_def
        decide_def gate1_def gate2_def fl_is_zero_def dispatch_not_eligible stub_platform_def)
  have "status (skipped_response ''Blocked by sentiment <s>'') \<noteq> 401"
    by (simp add: skipped_response_def)
  with closed opened refused passed answer show ?thesis
    by simp
qed

section \<open>A request without \<open>symbol\<close>\<close>

lemma extract_fields_no_symbol:
  "map_of items ''symbol'' = None \<Longrightarrow> \<exists>e. extract_fields w (JObj items) = Inl e"
  by (simp add: extract_fields_def py_get_def bnd_def colon_in_def split: sum.splits)

text \<open>
  Claim C1. A parsed and authenticated request whose payload lacks \<open>symbol\<close> is a
  request-validation failure, answered with a 4xx status and an explanatory body. The
  handler does not do so: \<open>data.get("symbol")\<close> is \<open>None\<close>, and the membership
  test of line 98 raises TypeError, which the handler does not catch. The theorem
  runs the handler on such a request: it raises, before the note is scored.
\<close>

theorem missing_symbol_raises:
  "webhook w (example_config dry) (Some alert_without_symbol) = ([], Inl TypeError)"
  by (simp add: webhook_object alert_without_symbol_def example_config_def
      handle_alert_def extract_fields_def py_get_def bind_simps bnd_simps
      py_upper_def py_lower_def py_float_def colon_in_def)

text \<open>The same for every payload without \<open>symbol\<close> that passes the token check.\<close>

lemma missing_symbol_never_answered:
  assumes "map_of items ''symbol'' = None"
    and "TV_WEBHOOK_TOKEN cfg = [] \<or> map_of items ''token'' = Some (JStr (TV_WEBHOOK_TOKEN cfg))"
  shows "\<exists>e. webhook w cfg (Some (JObj items)) = ([], Inl e)"
proof -
  from assms(1) obtain e where "extract_fields w (JObj items) = Inl e"
    using extract_fields_no_symbol by blast
  then have "handle_alert w cfg (JObj items) = ([], Inl e)"
    by (rule handle_alert_raises)
  moreover from assms(2) have "webhook w cfg (Some (JObj items)) = handle_alert w cfg (JObj items)"
    by (auto simp add: webhook_object)
  ultimately show ?thesis by simp
qed

section \<open>A confidence that is not a number\<close>

text \<open>
  Claim C10. There is a syntactically valid, authenticated request whose
  \<open>confidence\<close> is present and is not convertible to a number, the string "high",
  on which the handler raises the exception of the conversion of line 97, uncaught,
  and returns no response: neither a 4xx nor any other.
\<close>

theorem confidence_not_a_number_raises:
  "webhook w (example_config dry) (Some (example_alert (JStr ''high''))) = ([], Inl ValueError)
   \<and> map_of [(''token'', JStr ''secret123''), (''symbol'', JStr ''BTCUSDT''), (''side'', JStr ''buy''),
        (''note'', JStr ''strong earnings beat''), (''confidence'', JStr ''high'')] ''confidence''
      = Some (JStr ''high'')
   \<and> py_float w (JStr ''high'') = Inl ValueError"
  by (simp add: webhook_object example_alert_def example_config_def
      handle_alert_def extract_fields_def py_get_def bind_simps bnd_simps
      py_upper_def py_lower_def py_float_def colon_in_def
      float_syntax_def float_strip_def float_isspace_def drop_sign_def str_lower_def
      lower_char_def floatnumber_ok_def digitpart_def is_digit_def)

section \<open>start\_deal\<close>

lemma start_deal_dry:
  "DRY_RUN cfg \<Longrightarrow> int_of_str w bot_id = Some n \<Longrightarrow>
   start_deal w cfg bot_id pair message =
     ([LogDryRun (deal_payload n pair message)], Inr (JObj [(''status'', JStr ''dry_run'')]))"
  by (simp add: start_deal_def emit_def ret_def bind_simps)

lemma start_deal_live:
  "\<not> DRY_RUN cfg \<Longrightarrow> int_of_str w bot_id = Some n \<Longrightarrow>
   requests_post w (deal_request w cfg (deal_payload n pair message)) = Inr r \<Longrightarrow>
   start_deal w cfg bot_id pair message =
     ([HttpPost (deal_request w cfg (deal_payload n pair message)), LogResponse (deal_response r)],
      Inr (deal_response r))"
  by (simp add: start_deal_def http_post_def emit_def ret_def bind_simps Let_def)

lemma start_deal_returns_dispatched:
  "snd (start_deal w cfg bot_id pair message) = Inr resp \<Longrightarrow>
   dispatched (start_deal w cfg bot_id pair message)"
  by (auto simp add: start_deal_def dispatched_def http_post_def emit_def ret_def raise_def
      bind_def Let_def split: option.splits if_splits sum.splits)

text \<open>
  Claim C7. Whenever the dry-run flag is set, \<open>start_deal\<close> makes no network call,
  whatever its arguments, and for every valid input (a bot id that \<open>int\<close> accepts,
  any pair, any message) it returns exactly the marker \<open>{status: "dry_run"}\<close>,
  having only printed the payload.
\<close>

theorem start_deal_dry_run:
  assumes "DRY_RUN cfg"
  shows "\<not> list_ex is_http_post (fst (start_deal w cfg bot_id pair message))
    \<and> (\<forall>n. int_of_str w bot_id = Some n \<longrightarrow>
          start_deal w cfg bot_id pair message =
            ([LogDryRun (deal_payload n pair message)],
             Inr (JObj [(''status'', JStr ''dry_run'')])))"
proof (cases "int_of_str w bot_id")
  case None
  then show ?thesis
    by (simp add: start_deal_def raise_def)
next
  case (Some n)
  with assms show ?thesis
    by (simp add: start_deal_dry)
qed

theorem start_deal_dry_run_witness:
  "DRY_RUN (example_config True)
   \<and> int_of_str (stub_platform (clf_const ''positive'' (Fin (7 / 8))) bad_gateway) ''12345'' = Some 12345
   \<and> start_deal (stub_platform (clf_const ''positive'' (Fin (7 / 8))) bad_gateway)
        (example_config True) ''12345'' (JStr ''BINANCE:BTCUSDT'') ''TV+FinBERT: buy'' =
      ([LogDryRun (JObj [(''bot_id'', JInt 12345), (''pair'', JStr ''BINANCE:BTCUSDT''),
                         (''message'', JStr ''TV+FinBERT: buy'')])],
       Inr (JObj [(''status'', JStr ''dry_run'')]))"
proof -
  have dry: "DRY_RUN (example_config True)"
    by (simp add: example_config_def)
  have valid: "int_of_str (stub_platform (clf_const ''positive'' (Fin (7 / 8))) bad_gateway)
      ''12345'' = Some 12345"
    by (simp add: stub_platform_def)
  from start_deal_dry_run [OF dry,
      of "stub_platform (clf_const ''positive'' (Fin (7 / 8))) bad_gateway" "''12345''"
        "JStr ''BINANCE:BTCUSDT''" "''TV+FinBERT: buy''"] valid dry
  show ?thesis
    by (simp add: deal_payload_def)
qed

section \<open>The answer of the trading API\<close>

lemma dispatch_eligible:
  assumes "fst d" and "API_KEY cfg \<noteq> []" and "API_SECRET cfg \<noteq> []" and "BOT_ID cfg \<noteq> []"
    and started: "snd (start_deal w cfg (BOT_ID cfg) (alert_pair a)
          (''TV+FinBERT: '' @ alert_side a @ '' ('' @ snd d @ '')'')) = Inr resp"
  shows "snd (dispatch w cfg a s d) = Inr (deal_started_response resp)"
proof -
  obtain es' where "start_deal w cfg (BOT_ID cfg) (alert_pair a)
          (''TV+FinBERT: '' @ alert_side a @ '' ('' @ snd d @ '')'') = (es', Inr resp)"
    using started
    by (cases "start_deal w cfg (BOT_ID cfg) (alert_pair a)
          (''TV+FinBERT: '' @ alert_side a @ '' ('' @ snd d @ '')'')") simp
  with assms(1-4) show ?thesis
    by (simp add: dispatch_def Let_def emit_def ret_def bind_simps)
qed

text \<open>
  Claim C8. In live mode, whatever response the trading API gives, with whatever status
  code, \<open>start_deal\<close> does not raise: it returns the body parsed as JSON, or, when
  parsing fails, the record of the raw status code and the raw text. The handler
  forwards what \<open>start_deal\<close> returned, unchanged, as the \<open>threecommas\<close> field of
  a 200 answer \<open>{ok: true, action: "deal_started"}\<close>.
\<close>

theorem upstream_answer_forwarded:
  "(\<not> DRY_RUN cfg \<and> int_of_str w bot_id = Some n \<and>
      requests_post w (deal_request w cfg (deal_payload n pair message)) = Inr r \<longrightarrow>
        snd (start_deal w cfg bot_id pair message) = Inr (deal_response r)
        \<and> (\<forall>j. resp_json r = Some j \<longrightarrow> deal_response r = j)
        \<and> (resp_json r = None \<longrightarrow>
              deal_response r = JObj [(''status_code'', JInt (resp_status_code r)),
                                      (''text'', JStr (resp_text r))]))
   \<and> ((TV_WEBHOOK_TOKEN cfg = [] \<or> map_of items ''token'' = Some (JStr (TV_WEBHOOK_TOKEN cfg))) \<and>
       extract_fields w (JObj items) = Inr a \<and>
       sentiment_score w (alert_note a) = (es, Inr s) \<and>
       fst (decide w (alert_side a) s (alert_confidence a)) \<and>
       API_KEY cfg \<noteq> [] \<and> API_SECRET cfg \<noteq> [] \<and> BOT_ID cfg \<noteq> [] \<and>
       snd (start_deal w cfg (BOT_ID cfg) (alert_pair a)
              (''TV+FinBERT: '' @ alert_side a @ '' ('' @
                 snd (decide w (alert_side a) s (alert_confidence a)) @ '')'')) = Inr resp \<longrightarrow>
         snd (webhook w cfg (Some (JObj items))) =
           Inr \<lparr>status = 200,
                body = JObj [(''ok'', JBool True), (''action'', JStr ''deal_started''),
                             (''threecommas'', resp)]\<rparr>)"
proof (intro conjI impI allI)
  assume live: "\<not> DRY_RUN cfg \<and> int_of_str w bot_id = Some n \<and>
      requests_post w (deal_request w cfg (deal_payload n pair message)) = Inr r"
  then show "snd (start_deal w cfg bot_id pair message) = Inr (deal_response r)"
    by (simp add: start_deal_live)
next
  fix j
  assume "resp_json r = Some j"
  then show "deal_response r = j"
    by (simp add: deal_response_def)
next
  assume "resp_json r = None"
  then show "deal_response r = JObj [(''status_code'', JInt (resp_status_code r)),
                                      (''text'', JStr (resp_text r))]"
    by (simp add: deal_response_def)
next
  assume h: "(TV_WEBHOOK_TOKEN cfg = [] \<or> map_of items ''token'' = Some (JStr (TV_WEBHOOK_TOKEN cfg))) \<and>
       extract_fields w (JObj items) = Inr a \<and>
       sentiment_score w (alert_note a) = (es, Inr s) \<and>
       fst (decide w (alert_side a) s (alert_confidence a)) \<and>
       API_KEY cfg \<noteq> [] \<and> API_SECRET cfg \<noteq> [] \<and> BOT_ID cfg \<noteq> [] \<and>
       snd (start_deal w cfg (BOT_ID cfg) (alert_pair a)
              (''TV+FinBERT: '' @ alert_side a @ '' ('' @
                 snd (decide w (alert_side a) s (alert_confidence a)) @ '')'')) = Inr resp"
  then have "webhook w cfg (Some (JObj items)) = handle_alert w cfg (JObj items)"
    by (auto simp add: webhook_object)
  moreover from h have "snd (handle_alert w cfg (JObj items)) =
      snd (dispatch w cfg a s (decide w (alert_side a) s (alert_confidence a)))"
    by (simp add: handle_alert_scored)
  moreover from h have "snd (dispatch w cfg a s (decide w (alert_side a) s (alert_confidence a))) =
      Inr (deal_started_response resp)"
    by (simp add: dispatch_eligible)
  ultimately show "snd (webhook w cfg (Some (JObj items))) =
           Inr \<lparr>status = 200,
                body = JObj [(''ok'', JBool True), (''action'', JStr ''deal_started''),
                             (''threecommas'', resp)]\<rparr>"
    by (simp add: deal_started_response_def)
qed

theorem upstream_answer_forwarded_witness:
  "snd (start_deal (stub_platform (clf_const ''positive'' (Fin (7 / 8))) bad_gateway)
        (example_config False) ''12345'' (JStr ''BINANCE:BTCUSDT'') ''TV+FinBERT: buy'') =
     Inr (JObj [(''status_code'', JInt 502), (''text'', JStr ''Bad Gateway'')])
   \<and> snd (webhook (stub_platform (clf_const ''positive'' (Fin (7 / 8))) bad_gateway)
        (example_config False) (Some (example_alert (JInt 75)))) =
     Inr \<lparr>status = 200,
          body = JObj [(''ok'', JBool True), (''action'', JStr ''deal_started''),
                       (''threecommas'',
                        JObj [(''status_code'', JInt 502), (''text'', JStr ''Bad Gateway'')])]\<rparr>"
proof -
  let ?w = "stub_platform (clf_const ''positive'' (Fin (7 / 8))) bad_gateway"
  let ?cfg = "example_config False"
  let ?r = "\<lparr>resp_status_code = 502, resp_text = ''Bad Gateway'', resp_json = None\<rparr>"
  let ?resp = "JObj [(''status_code'', JInt 502), (''text'', JStr ''Bad Gateway'')]"
  let ?items = "[(''token'', JStr ''secret123''), (''symbol'', JStr ''BTCUSDT''),
      (''side'', JStr ''buy''), (''note'', JStr ''strong earnings beat''), (''confidence'', JInt 75)]"
  let ?a = "\<lparr>alert_symbol = JStr ''BTCUSDT'', alert_exchange = ''BINANCE'', alert_side = ''buy'',
      alert_note = JStr ''strong earnings beat'', alert_confidence = Fin 75,
      alert_pair = JStr ''BINANCE:BTCUSDT''\<rparr>"
  have live: "\<not> DRY_RUN ?cfg" and cfg: "API_KEY ?cfg \<noteq> []" "API_SECRET ?cfg \<noteq> []"
    "BOT_ID ?cfg \<noteq> []" "BOT_ID ?cfg = ''12345''"
    and tok: "map_of ?items ''token'' = Some (JStr (TV_WEBHOOK_TOKEN ?cfg))"
    by (simp_all add: example_config_def)
  have valid: "int_of_str ?w ''12345'' = Some 12345"
    and answer: "\<And>rq. requests_post ?w rq = Inr ?r"
    by (simp_all add: stub_platform_def bad_gateway_def)
  have parsed: "resp_json ?r = None" "resp_status_code ?r = 502" "resp_text ?r = ''Bad Gateway''"
    by simp_all
  have fields: "extract_fields ?w (JObj ?items) = Inr ?a"
    by (simp add: extract_fields_def py_get_def bnd_simps py_upper_def py_lower_def py_float_def
        colon_in_def str_lower_def str_upper_def upper_chars_def lower_char_def upper_char_def py_str_def)
  have scored: "sentiment_score ?w (alert_note ?a) =
      ([ClassifierCall ''strong earnings beat''], Inr (Fin (7 / 8)))"
    by (simp add: sentiment_score_def truthy_def strip_def isspace_def classify_def
        stub_platform_def clf_const_def bind_simps ret_def str_lower_def lower_char_def)
  have decided: "decide ?w (alert_side ?a) (Fin (7 / 8)) (alert_confidence ?a) =
      (True, ''BUY allowed (sentiment <s>)'')"
    by (simp add: decide_def gate1_def gate2_def lit_0_2_def fl_lt_def fl_is_zero_def
        stub_platform_def)
  have first: "snd (start_deal ?w ?cfg ''12345'' (JStr ''BINANCE:BTCUSDT'') ''TV+FinBERT: buy'') =
      Inr ?resp"
    using upstream_answer_forwarded [where w = ?w and cfg = ?cfg and bot_id = "''12345''"
        and n = 12345 and pair = "JStr ''BINANCE:BTCUSDT''" and message = "''TV+FinBERT: buy''"
        and r = ?r] live valid answer parsed
    by simp
  have started: "snd (start_deal ?w ?cfg (BOT_ID ?cfg) (alert_pair ?a)
      (''TV+FinBERT: '' @ alert_side ?a @ '' ('' @
         snd (decide ?w (alert_side ?a) (Fin (7 / 8)) (alert_confidence ?a)) @ '')'')) = Inr ?resp"
    using upstream_answer_forwarded [where w = ?w and cfg = ?cfg and bot_id = "''12345''"
        and n = 12345 and pair = "JStr ''BINANCE:BTCUSDT''"
        and message = "''TV+FinBERT: buy (BUY allowed (sentiment <s>))''"
        and r = ?r] live valid answer parsed cfg(4) decided
    by simp
  have "snd (webhook ?w ?cfg (Some (JObj ?items))) =
      Inr \<lparr>status = 200,
           body = JObj [(''ok'', JBool True), (''action'', JStr ''deal_started''),
                        (''threecommas'', ?resp)]\<rparr>"
    using upstream_answer_forwarded [where w = ?w and cfg = ?cfg and items = ?items and a = ?a
        and es = "[ClassifierCall ''strong earnings beat'']" and s = "Fin (7 / 8)"
        and resp = ?resp] tok fields scored decided cfg(1-3) started
    by simp
  with first show ?thesis
    by (simp add: example_alert_def)
qed

section \<open>No dispatch without alignment\<close>

lemma decide_eligible:
  "fst (decide w side s c) \<Longrightarrow> fst (gate1 w side s)"
  by (auto simp add: decide_def gate2_def split: if_splits)

lemma gate1_passed:
  "fst (gate1 w side s) \<Longrightarrow>
   (side = ''buy'' \<and> fl_lt lit_0_2 s) \<or> (side = ''sell'' \<and> fl_lt s (fl_neg lit_0_2))"
  by (auto simp add: gate1_def split: if_splits)

lemma dispatch_dispatched:
  "dispatched (dispatch w cfg a s d) \<Longrightarrow> fst d"
proof (rule ccontr)
  assume d: "dispatched (dispatch w cfg a s d)" and "\<not> fst d"
  then show False
    by (simp add: dispatch_not_eligible dispatched_def)
qed

lemma webhook_dispatched:
  assumes d: "dispatched (webhook w cfg rq)"
  shows "\<exists>items a es s. rq = Some (JObj items) \<and> extract_fields w (JObj items) = Inr a \<and>
      sentiment_score w (alert_note a) = (es, Inr s) \<and>
      fst (decide w (alert_side a) s (alert_confidence a))"
proof -
  from d have "fst (webhook w cfg rq) \<noteq> []"
    by (auto simp add: dispatched_def)
  then obtain items where rq: "rq = Some (JObj items)"
    and eq: "webhook w cfg rq = handle_alert w cfg (JObj items)"
    using webhook_events_object by blast
  from d eq have dh: "dispatched (handle_alert w cfg (JObj items))"
    by simp
  show ?thesis
  proof (cases "extract_fields w (JObj items)")
    case (Inl e)
    with dh show ?thesis
      by (simp add: handle_alert_raises dispatched_def)
  next
    case (Inr a)
    obtain es x where sc: "sentiment_score w (alert_note a) = (es, x)"
      by (cases "sentiment_score w (alert_note a)")
    then have quiet: "\<not> list_ex is_dispatch_event es"
      by (rule sentiment_score_not_dispatched)
    show ?thesis
    proof (cases x)
      case (Inl e)
      with Inr sc dh quiet show ?thesis
        by (simp add: handle_alert_unscored dispatched_def)
    next
      case s: (Inr s)
      with Inr sc dh quiet
      have "dispatched (dispatch w cfg a s (decide w (alert_side a) s (alert_confidence a)))"
        by (simp add: handle_alert_scored dispatched_def)
      then have "fst (decide w (alert_side a) s (alert_confidence a))"
        by (rule dispatch_dispatched)
      with rq Inr sc s show ?thesis
        by blast
    qed
  qed
qed

lemma dispatch_deal_started:
  assumes "snd (dispatch w cfg a s d) = Inr (deal_started_response resp)"
  shows "fst d"
proof (rule ccontr)
  assume "\<not> fst d"
  with assms show False
    by (simp add: dispatch_not_eligible skipped_response_def deal_started_response_def)
qed

lemma webhook_deal_started:
  assumes r: "snd (webhook w cfg rq) = Inr (deal_started_response resp)"
  shows "\<exists>items a es s. rq = Some (JObj items) \<and> extract_fields w (JObj items) = Inr a \<and>
      sentiment_score w (alert_note a) = (es, Inr s) \<and>
      fst (decide w (alert_side a) s (alert_confidence a))"
proof (cases rq)
  case None
  with r show ?thesis
    by (simp add: webhook_def ret_def invalid_json_response_def deal_started_response_def)
next
  case (Some data)
  show ?thesis
  proof (cases data)
    case (JObj items)
    with Some r have h: "snd (handle_alert w cfg (JObj items)) = Inr (deal_started_response resp)"
      by (simp add: webhook_object bad_token_response_def deal_started_response_def
          split: if_splits)
    show ?thesis
    proof (cases "extract_fields w (JObj items)")
      case (Inl e)
      with h show ?thesis
        by (simp add: handle_alert_raises)
    next
      case (Inr a)
      obtain es x where sc: "sentiment_score w (alert_note a) = (es, x)"
        by (cases "sentiment_score w (alert_note a)")
      show ?thesis
      proof (cases x)
        case (Inl e)
        with Inr sc h show ?thesis
          by (simp add: handle_alert_unscored)
      next
        case s: (Inr s)
        with Inr sc h
        have "snd (dispatch w cfg a s (decide w (alert_side a) s (alert_confidence a))) =
            Inr (deal_started_response resp)"
          by (simp add: handle_alert_scored)
        then have "fst (decide w (alert_side a) s (alert_confidence a))"
          by (rule dispatch_deal_started)
        with Some JObj Inr sc s show ?thesis
          by blast
      qed
    qed
  qed (use Some r in \<open>simp_all add: webhook_def py_get_def bind_simps\<close>)
qed

text \<open>
  Claim C9. For every request, the final decision is trade-eligible only if Gate 1
  passed, that is, the side is "buy" with a sentiment strictly above 0.2 or "sell"
  with a sentiment strictly below -0.2: the confidence gate only revokes eligibility.
  So whatever the confidence, the handler dispatches a trade (starts the HTTP request
  or prints the dry-run payload, or answers "deal\_started") only for a request whose
  fields were read, whose note was scored, and whose side and sentiment pass Gate 1.
\<close>

theorem no_dispatch_without_alignment:
  "(fst (decide w side s c) \<longrightarrow>
      fst (gate1 w side s) \<and>
      ((side = ''buy'' \<and> fl_lt lit_0_2 s) \<or> (side = ''sell'' \<and> fl_lt s (fl_neg lit_0_2))))
   \<and> (dispatched (webhook w cfg rq) \<or>
       snd (webhook w cfg rq) = Inr (deal_started_response resp) \<longrightarrow>
        (\<exists>items a es s'. rq = Some (JObj items) \<and> extract_fields w (JObj items) = Inr a \<and>
           sentiment_score w (alert_note a) = (es, Inr s') \<and>
           ((alert_side a = ''buy'' \<and> fl_lt lit_0_2 s') \<or>
            (alert_side a = ''sell'' \<and> fl_lt s' (fl_neg lit_0_2)))))"
proof (intro conjI impI)
  assume e: "fst (decide w side s c)"
  then show "fst (gate1 w side s)"
    by (rule decide_eligible)
  then show "(side = ''buy'' \<and> fl_lt lit_0_2 s) \<or> (side = ''sell'' \<and> fl_lt s (fl_neg lit_0_2))"
    by (rule gate1_passed)
next
  assume "dispatched (webhook w cfg rq) \<or>
       snd (webhook w cfg rq) = Inr (deal_started_response resp)"
  then obtain items a es s' where "rq = Some (JObj items)" "extract_fields w (JObj items) = Inr a"
    "sentiment_score w (alert_note a) = (es, Inr s')"
    "fst (decide w (alert_side a) s' (alert_confidence a))"
    using webhook_dispatched webhook_deal_started by blast
  moreover from this(4)
  have "(alert_side a = ''buy'' \<and> fl_lt lit_0_2 s') \<or>
        (alert_side a = ''sell'' \<and> fl_lt s' (fl_neg lit_0_2))"
    by (intro gate1_passed decide_eligible)
  ultimately show "\<exists>items a es s'. rq = Some (JObj items) \<and> extract_fields w (JObj items) = Inr a \<and>
           sentiment_score w (alert_note a) = (es, Inr s') \<and>
           ((alert_side a = ''buy'' \<and> fl_lt lit_0_2 s') \<or>
            (alert_side a = ''sell'' \<and> fl_lt s' (fl_neg lit_0_2)))"
    by blast
qed

theorem no_dispatch_without_alignment_witness:
  "fst (decide (stub_platform (clf_const ''positive'' (Fin (7 / 8))) bad_gateway)
          ''buy'' (Fin (7 / 8)) (Fin 75))
   \<and> fl_lt lit_0_2 (Fin (7 / 8))
   \<and> dispatched (webhook (stub_platform (clf_const ''positive'' (Fin (7 / 8))) bad_gateway)
        (example_config True) (Some (example_alert (JInt 75))))
   \<and> (\<exists>items a es s'. Some (example_alert (JInt 75)) = Some (JObj items) \<and>
         extract_fields (stub_platform (clf_const ''positive'' (Fin (7 / 8))) bad_gateway)
           (JObj items) = Inr a \<and>
         sentiment_score (stub_platform (clf_const ''positive'' (Fin (7 / 8))) bad_gateway)
           (alert_note a) = (es, Inr s') \<and>
         ((alert_side a = ''buy'' \<and> fl_lt lit_0_2 s') \<or>
          (alert_side a = ''sell'' \<and> fl_lt s' (fl_neg lit_0_2))))"
proof -
  let ?w = "stub_platform (clf_const ''positive'' (Fin (7 / 8))) bad_gateway"
  have eligible: "fst (decide ?w ''buy'' (Fin (7 / 8)) (Fin 75))"
    by (simp add: decide_def gate1_def gate2_def lit_0_2_def fl_lt_def fl_is_zero_def)
  have sent: "dispatched (webhook ?w (example_config True) (Some (example_alert (JInt 75))))"
    by (simp add: dispatched_def webhook_def handle_alert_def extract_fields_def py_get_def
        example_alert_def example_config_def bind_simps bnd_simps py_upper_def py_lower_def
        py_float_def colon_in_def str_lower_def str_upper_def upper_chars_def lower_char_def upper_char_def
        char_of_eq_iff sentiment_score_def truthy_def strip_def isspace_def classify_def
        stub_platform_def clf_const_def decide_def gate1_def gate2_def lit_0_2_def fl_lt_def
        fl_is_zero_def dispatch_def emit_def start_deal_def ret_def raise_def)
  from no_dispatch_without_alignment [where w = ?w and side = "''buy''" and s = "Fin (7 / 8)"
      and c = "Fin 75" and cfg = "example_config True" and rq = "Some (example_alert (JInt 75))"]
    eligible sent
  show ?thesis
    by simp
qed

section \<open>sentiment\_score\<close>

lemma strip_blank:
  "strip s = [] \<longleftrightarrow> (\<forall>c \<in> set s. isspace c)"
proof
  assume "strip s = []"
  then have tail: "\<forall>c \<in> set (dropWhile isspace s). isspace c"
    by (simp add: strip_def dropWhile_eq_Nil_conv)
  have "dropWhile isspace s = []"
  proof (rule ccontr)
    assume ne: "dropWhile isspace s \<noteq> []"
    then have "\<not> isspace (hd (dropWhile isspace s))"
      by (rule hd_dropWhile)
    moreover from ne have "hd (dropWhile isspace s) \<in> set (dropWhile isspace s)"
      by simp
    ultimately show False using tail by blast
  qed
  then show "\<forall>c \<in> set s. isspace c"
    by (simp add: dropWhile_eq_Nil_conv)
next
  assume "\<forall>c \<in> set s. isspace c"
  then have "dropWhile isspace s = []"
    by (simp add: dropWhile_eq_Nil_conv)
  then show "strip s = []"
    by (simp only: strip_def rev.simps dropWhile.simps)
qed

lemma char_eq_char_of:
  "(c = char_of (n :: nat)) = (take_bit 8 n = of_char c)"
  by (metis char_of_eq_iff)

lemma strip_take_blank:
  "strip t = [] \<Longrightarrow> strip (take n t) = []"
  by (auto simp add: strip_blank dest: in_set_takeD)

lemma sentiment_score_blank:
  "t = [] \<or> strip t = [] \<Longrightarrow> sentiment_score w (JStr t) = ([], Inr (Fin 0))"
  by (auto simp add: sentiment_score_def truthy_def ret_def)

lemma strip_Nil: "strip [] = []"
  by (simp add: strip_def)

lemma sentiment_score_text:
  "strip t \<noteq> [] \<Longrightarrow>
   sentiment_score w (JStr t) =
     bind (classify w (take 500 t)) (\<lambda>res.
       if contains ''positive'' (str_lower (label res)) then ret (score res)
       else if contains ''negative'' (str_lower (label res)) then ret (fl_neg (score res))
       else ret (Fin 0))"
  by (cases "t = []") (simp_all add: strip_Nil sentiment_score_def truthy_def Let_def)

lemma in_unit_range_zero: "in_unit_range (Fin 0)"
  by (simp add: in_unit_range_def fl_le_def)

lemma in_unit_range_neg:
  "fl_le (Fin 0) x \<Longrightarrow> fl_le x (Fin 1) \<Longrightarrow> in_unit_range (fl_neg x)"
  by (cases x) (simp_all add: in_unit_range_def fl_le_def)

lemma in_unit_range_pos:
  "fl_le (Fin 0) x \<Longrightarrow> fl_le x (Fin 1) \<Longrightarrow> in_unit_range x"
  by (cases x) (simp_all add: in_unit_range_def fl_le_def)

text \<open>
  Claim C5, as stated, fails: a magnitude that is only known to be non-negative may
  exceed 1, and \<open>sentiment_score\<close> returns it unchanged. With a classifier that
  answers the label "positive" and the magnitude 2.0 the score is 2.0.
\<close>

theorem unit_range_counterexample:
  "fl_le (Fin 0) (Fin 2)
   \<and> sentiment_score (stub_platform (clf_const ''positive'' (Fin 2)) bad_gateway)
        (JStr ''strong earnings beat'') =
      ([ClassifierCall ''strong earnings beat''], Inr (Fin 2))
   \<and> \<not> in_unit_range (Fin 2)"
  by (simp add: fl_le_def in_unit_range_def sentiment_score_def truthy_def strip_def isspace_def
      classify_def stub_platform_def clf_const_def bind_simps ret_def str_lower_def lower_char_def)

text \<open>
  Claim C5, amended. For every input text, given that the classifier returns a label
  and a magnitude between 0 and 1, \<open>sentiment_score\<close> returns a float in
  \<open>[-1.0, 1.0]\<close>: 0.0 for an empty or blank text, for which the classifier is not
  invoked; otherwise, the classifier being invoked once, on the first 500 characters,
  the magnitude when the lower-cased label contains "positive", else minus the
  magnitude when it contains "negative", and 0.0 for any other label.
\<close>

theorem sentiment_score_value:
  assumes clf: "sent_clf w (take 500 t) = Inr res"
    and lo: "fl_le (Fin 0) (score res)"
    and hi: "fl_le (score res) (Fin 1)"
  shows "\<exists>v. sentiment_score w (JStr t) =
       (if t = [] \<or> strip t = [] then [] else [ClassifierCall (take 500 t)], Inr v) \<and>
     in_unit_range v \<and>
     v = (if t = [] \<or> strip t = [] then Fin 0
          else if contains ''positive'' (str_lower (label res)) then score res
          else if contains ''negative'' (str_lower (label res)) then fl_neg (score res)
          else Fin 0)"
proof (cases "t = [] \<or> strip t = []")
  case True
  then have "sentiment_score w (JStr t) = ([], Inr (Fin 0))"
    by (rule sentiment_score_blank)
  with True show ?thesis
    by (simp add: in_unit_range_zero)
next
  case False
  then have "sentiment_score w (JStr t) =
     ([ClassifierCall (take 500 t)],
      Inr (if contains ''positive'' (str_lower (label res)) then score res
           else if contains ''negative'' (str_lower (label res)) then fl_neg (score res)
           else Fin 0))"
    using clf by (simp add: sentiment_score_text classify_def bind_simps ret_def)
  with False lo hi show ?thesis
    by (simp add: in_unit_range_zero in_unit_range_neg in_unit_range_pos)
qed

theorem sentiment_score_value_witness:
  "sent_clf (stub_platform (clf_const ''Negative'' (Fin (3 / 4))) bad_gateway)
       (take 500 ''layoffs expected'') = Inr \<lparr>label = ''Negative'', score = Fin (3 / 4)\<rparr>
   \<and> sent_clf (stub_platform (clf_const ''Negative'' (Fin (3 / 4))) bad_gateway)
       (take 500 ''   '') = Inr \<lparr>label = ''Negative'', score = Fin (3 / 4)\<rparr>
   \<and> fl_le (Fin 0) (Fin (3 / 4)) \<and> fl_le (Fin (3 / 4)) (Fin 1)
   \<and> sentiment_score (stub_platform (clf_const ''Negative'' (Fin (3 / 4))) bad_gateway)
        (JStr ''layoffs expected'') =
      ([ClassifierCall ''layoffs expected''], Inr (Fin (- (3 / 4))))
   \<and> in_unit_range (Fin (- (3 / 4)))
   \<and> sentiment_score (stub_platform (clf_const ''Negative'' (Fin (3 / 4))) bad_gateway)
        (JStr ''   '') = ([], Inr (Fin 0))
   \<and> in_unit_range (Fin 0)"
proof -
  let ?w = "stub_platform (clf_const ''Negative'' (Fin (3 / 4))) bad_gateway"
  let ?res = "\<lparr>label = ''Negative'', score = Fin (3 / 4)\<rparr>"
  have clf: "sent_clf ?w (take 500 ''layoffs expected'') = Inr ?res"
    and clf_blank: "sent_clf ?w (take 500 ''   '') = Inr ?res"
    by (simp_all add: stub_platform_def clf_const_def)
  have lo: "fl_le (Fin 0) (score ?res)" and hi: "fl_le (score ?res) (Fin 1)"
    by (simp_all add: fl_le_def)
  have nonblank: "''layoffs expected'' \<noteq> [] \<and> strip ''layoffs expected'' \<noteq> []"
    by (simp add: strip_def isspace_def)
  have blank: "strip ''   '' = []"
    by (simp add: strip_def isspace_def)
  have lbl: "\<not> contains ''positive'' (str_lower (label ?res))"
    "contains ''negative'' (str_lower (label ?res))"
    by (simp_all add: str_lower_def lower_char_def char_of_eq_iff char_eq_char_of)
  from sentiment_score_value [OF clf lo hi] nonblank lbl
  have scored: "sentiment_score ?w (JStr ''layoffs expected'') =
      ([ClassifierCall ''layoffs expected''], Inr (Fin (- (3 / 4))))"
    and inside: "in_unit_range (Fin (- (3 / 4)))"
    by simp_all
  from sentiment_score_value [OF clf_blank lo hi] blank
  have unasked: "sentiment_score ?w (JStr ''   '') = ([], Inr (Fin 0))"
    and zero: "in_unit_range (Fin 0)"
    by simp_all
  from clf clf_blank lo hi scored inside unasked zero show ?thesis
    by simp
qed

text \<open>
  Claim C6, as stated, fails: the blank test of line 26 reads the whole text, before
  the truncation of line 28. A text of 500 spaces followed by a letter is not blank,
  so the classifier is asked about the 500 spaces, and its answer is the score; the
  first 500 characters alone are blank, and their score is 0.0 without the
  classifier.
\<close>

theorem truncation_counterexample:
  "length (replicate 500 CHR '' '' @ ''x'') = 501
   \<and> sentiment_score (stub_platform (clf_const ''positive'' (Fin (7 / 8))) bad_gateway)
        (JStr (replicate 500 CHR '' '' @ ''x'')) =
      ([ClassifierCall (replicate 500 CHR '' '')], Inr (Fin (7 / 8)))
   \<and> sentiment_score (stub_platform (clf_const ''positive'' (Fin (7 / 8))) bad_gateway)
        (JStr (take 500 (replicate 500 CHR '' '' @ ''x''))) =
      ([], Inr (Fin 0))"
proof -
  let ?w = "stub_platform (clf_const ''positive'' (Fin (7 / 8))) bad_gateway"
  have cut: "take 500 (replicate 500 CHR '' '' @ ''x'') = replicate 500 CHR '' ''"
    by simp
  have "strip (replicate 500 CHR '' '') = []"
    by (simp add: strip_blank isspace_def)
  then have short: "sentiment_score ?w (JStr (replicate 500 CHR '' '')) = ([], Inr (Fin 0))"
    by (simp add: sentiment_score_blank)
  have "strip (replicate 500 CHR '' '' @ ''x'') \<noteq> []"
    by (simp add: strip_blank isspace_def)
  then have long: "sentiment_score ?w (JStr (replicate 500 CHR '' '' @ ''x'')) =
      ([ClassifierCall (replicate 500 CHR '' '')], Inr (Fin (7 / 8)))"
    by (simp add: sentiment_score_text cut classify_def stub_platform_def clf_const_def
        bind_simps ret_def str_lower_def lower_char_def)
  from short long cut show ?thesis
    by simp
qed

text \<open>
  Claim C6, amended. For every text \<open>t\<close> longer than 500 characters that is not
  blank, the classifier is asked about the first 500 characters of \<open>t\<close> and
  nothing else; and when the first 500 characters of \<open>t\<close> are not all white space,
  or \<open>t\<close> is blank altogether, the score of \<open>t\<close> is the score of its first 500
  characters.
\<close>

theorem truncation_before_classification:
  assumes long: "500 < length t"
  shows "(strip t \<noteq> [] \<longrightarrow> fst (sentiment_score w (JStr t)) = [ClassifierCall (take 500 t)])
    \<and> (strip (take 500 t) \<noteq> [] \<or> strip t = [] \<longrightarrow>
         sentiment_score w (JStr t) = sentiment_score w (JStr (take 500 t)))"
proof (intro conjI impI)
  assume "strip t \<noteq> []"
  then show "fst (sentiment_score w (JStr t)) = [ClassifierCall (take 500 t)]"
    by (simp add: sentiment_score_text classify_def bind_def ret_def split: sum.splits)
next
  assume "strip (take 500 t) \<noteq> [] \<or> strip t = []"
  then show "sentiment_score w (JStr t) = sentiment_score w (JStr (take 500 t))"
  proof
    assume head: "strip (take 500 t) \<noteq> []"
    then have "strip t \<noteq> []"
      using strip_take_blank by blast
    with head show ?thesis
      by (simp add: sentiment_score_text)
  next
    assume "strip t = []"
    then show ?thesis
      by (simp add: sentiment_score_blank strip_take_blank)
  qed
qed

theorem truncation_before_classification_witness:
  "500 < length (replicate 500 CHR ''a'' @ ''bc'')
   \<and> strip (take 500 (replicate 500 CHR ''a'' @ ''bc'')) \<noteq> []
   \<and> sentiment_score (stub_platform (clf_const ''positive'' (Fin (7 / 8))) bad_gateway)
        (JStr (replicate 500 CHR ''a'' @ ''bc'')) =
      sentiment_score (stub_platform (clf_const ''positive'' (Fin (7 / 8))) bad_gateway)
        (JStr (take 500 (replicate 500 CHR ''a'' @ ''bc'')))
   \<and> fst (sentiment_score (stub_platform (clf_const ''positive'' (Fin (7 / 8))) bad_gateway)
        (JStr (replicate 500 CHR ''a'' @ ''bc''))) = [ClassifierCall (replicate 500 CHR ''a'')]"
proof -
  have long: "500 < length (replicate 500 CHR ''a'' @ ''bc'')"
    by simp
  have head: "strip (take 500 (replicate 500 CHR ''a'' @ ''bc'')) \<noteq> []"
    by (simp add: strip_blank isspace_def)
  then have whole: "strip (replicate 500 CHR ''a'' @ ''bc'') \<noteq> []"
    using strip_take_blank by blast
  have cut: "take 500 (replicate 500 CHR ''a'' @ ''bc'') = replicate 500 CHR ''a''"
    by simp
  note truncated = truncation_before_classification [OF long,
      of "stub_platform (clf_const ''positive'' (Fin (7 / 8))) bad_gateway"]
  from truncated whole
  have asked: "fst (sentiment_score (stub_platform (clf_const ''positive'' (Fin (7 / 8))) bad_gateway)
        (JStr (replicate 500 CHR ''a'' @ ''bc''))) =
      [ClassifierCall (take 500 (replicate 500 CHR ''a'' @ ''bc''))]"
    by blast
  from truncated head
  have same: "sentiment_score (stub_platform (clf_const ''positive'' (Fin (7 / 8))) bad_gateway)
        (JStr (replicate 500 CHR ''a'' @ ''bc'')) =
      sentiment_score (stub_platform (clf_const ''positive'' (Fin (7 / 8))) bad_gateway)
        (JStr (take 500 (replicate 500 CHR ''a'' @ ''bc'')))"
    by blast
  from long head same asked [unfolded cut] show ?thesis
    by blast
qed

end
